theory Spec2Isabelle
  imports Complex_Main
begin

section \<open>The scoring monitor of backend/scoring\_monitor.py\<close>

text \<open>
  A shallow embedding of class \<open>ScoringMonitor\<close>. Conventions of the model:
  \<^item> Python floats are real numbers: rounding, infinities and NaN are not modelled.
  \<^item> \<open>time.time()\<close> is an argument \<open>now\<close> of every operation that reads the clock; one
    operation reads one instant.
  \<^item> The SQLite file is part of the state (two tables, rows in insertion order). Whether
    sqlite3 works during an operation is the argument \<open>db_ok\<close>: when it is \<open>False\<close>, every
    statement of the operation raises inside its \<open>try\<close> block.
  \<^item> An operation returns the state it leaves behind together with the exception that
    escapes it, if any: Python mutates the monitor in place, so the mutations made before
    a raise stay.
  \<^item> \<open>response_data\<close> is represented by the one key the monitor reads, \<open>credit_score\<close>,
    which the scoring service always fills with a float; \<open>request_data\<close>, which the monitor
    only stores, is left out.
  \<^item> \<open>window_size\<close> is a natural number: \<open>deque(maxlen=...)\<close> rejects a negative one.
  \<^item> Calls to \<open>logger\<close> append to the field \<open>logged\<close>.
  \<^item> A leading underscore of a Python name is dropped.
\<close>

subsection \<open>Library functions the monitor calls\<close>

datatype py_error = ZeroDivisionError | StatisticsError | IndexError

text \<open>\<open>statistics.mean\<close>: raises on no data.\<close>

definition statistics_mean :: "real list \<Rightarrow> py_error + real" where
  "statistics_mean xs =
     (if xs = [] then Inl StatisticsError else Inr (sum_list xs / real (length xs)))"

text \<open>\<open>statistics.stdev\<close>: the square root of the sample variance; raises on fewer than
  two data points.\<close>

definition statistics_stdev :: "real list \<Rightarrow> py_error + real" where
  "statistics_stdev xs =
     (if length xs < 2 then Inl StatisticsError
      else Inr (sqrt (sum_list (map (\<lambda>x. (x - sum_list xs / real (length xs))\<^sup>2) xs)
                        / (real (length xs) - 1))))"

text \<open>The operator \<open>/\<close> on numbers.\<close>

definition py_div :: "real \<Rightarrow> real \<Rightarrow> py_error + real" where
  "py_div a b = (if b = 0 then Inl ZeroDivisionError else Inr (a / b))"

text \<open>\<open>collections.deque(maxlen=n).append\<close>: the item goes to the right end, and when
  the deque then holds more than \<open>maxlen\<close> items the leftmost one is removed.\<close>

definition deque_append :: "nat \<Rightarrow> 'a list \<Rightarrow> 'a \<Rightarrow> 'a list" where
  "deque_append maxlen q x = (if maxlen < length (q @ [x]) then tl (q @ [x]) else q @ [x])"

subsection \<open>Data classes\<close>

text \<open>A value put into a dictionary or an f-string: a number or a string.\<close>

datatype py_value = PyNum real | PyStr string

record ScoringEvent =
  timestamp :: real
  user_id :: string
  api_key :: string
  credit_score :: "real option"
  processing_time :: real
  ip_address :: string
  user_agent :: string
  status_code :: int
  error_message :: "string option"

text \<open>An f-string is the list of its literal pieces and formatted values.\<close>

record AnomalyAlert =
  alert_timestamp :: real
  alert_type :: string
  severity :: string
  description :: "py_value list"
  affected_entities :: "string list"
  metrics :: "(string \<times> py_value) list"
  recommendations :: "string list"

text \<open>The dictionary \<open>baseline_metrics\<close>. The empty dictionary of \<open>__init__\<close> reads, through
  \<open>.get(key, default)\<close>, as \<open>default_baseline\<close>.\<close>

record BaselineMetrics =
  avg_processing_time :: real
  std_processing_time :: real
  avg_score :: real
  std_score :: real
  requests_per_hour :: real
  last_updated :: real

definition default_baseline :: "real \<Rightarrow> BaselineMetrics" where
  "default_baseline now =
     \<lparr>avg_processing_time = 1 / 2, std_processing_time = 1 / 5, avg_score = 500,
      std_score = 150, requests_per_hour = 10, last_updated = now\<rparr>"

subsection \<open>The database\<close>

text \<open>Column \<open>response_data\<close> of a stored event: text that \<open>json.loads\<close> rejects, or a
  dictionary with or without \<open>credit_score\<close>.\<close>

datatype json_text = Undecodable | Decoded "real option"

record event_row =
  r_timestamp :: real
  r_user_id :: string
  r_api_key :: string
  r_response_data :: json_text
  r_processing_time :: real
  r_ip_address :: string
  r_user_agent :: string
  r_status_code :: int
  r_error_message :: "string option"

record database =
  scoring_events :: "event_row list"
  anomaly_alerts :: "AnomalyAlert list"

datatype log_entry =
  LogError string | LogWarning "py_value list" | LogInfo "py_value list"

subsection \<open>The monitor\<close>

record ScoringMonitor =
  window_size :: nat
  alert_threshold :: int
  recent_events :: "ScoringEvent list"
  recent_scores :: "real list"
  recent_response_times :: "real list"
  baseline_metrics :: BaselineMetrics
  alerts :: "AnomalyAlert list"
  user_request_counts :: "string \<Rightarrow> nat"
  ip_request_counts :: "string \<Rightarrow> nat"
  db :: database
  logged :: "log_entry list"

type_synonym outcome = "ScoringMonitor \<times> py_error option"

text \<open>Statement sequencing: an exception of the first statement skips the second.\<close>

definition and_then :: "outcome \<Rightarrow> (ScoringMonitor \<Rightarrow> outcome) \<Rightarrow> outcome" where
  "and_then r f = (case r of (s, None) \<Rightarrow> f s | (s, Some e) \<Rightarrow> (s, Some e))"

definition row_of_event :: "ScoringEvent \<Rightarrow> event_row" where
  "row_of_event e =
     \<lparr>r_timestamp = timestamp e, r_user_id = user_id e, r_api_key = api_key e,
      r_response_data = Decoded (credit_score e), r_processing_time = processing_time e,
      r_ip_address = ip_address e, r_user_agent = user_agent e,
      r_status_code = status_code e, r_error_message = error_message e\<rparr>"

definition persist_event :: "ScoringEvent \<Rightarrow> bool \<Rightarrow> ScoringMonitor \<Rightarrow> ScoringMonitor" where
  "persist_event e db_ok s =
     (if db_ok
      then s\<lparr>db := (db s)\<lparr>scoring_events := scoring_events (db s) @ [row_of_event e]\<rparr>\<rparr>
      else s\<lparr>logged := logged s @ [LogError ''Error persisting event'']\<rparr>)"

text \<open>\<open>_trigger_alert\<close>: the alert joins the list in memory and the table, a warning is
  logged (the severity as it is, not in upper case), and the alerts of more than 24 hours
  ago leave the list in memory.\<close>

definition trigger_alert :: "AnomalyAlert \<Rightarrow> real \<Rightarrow> bool \<Rightarrow> ScoringMonitor \<Rightarrow> ScoringMonitor" where
  "trigger_alert alert now db_ok s =
     (let s1 = s\<lparr>alerts := alerts s @ [alert]\<rparr>;
          s2 = (if db_ok
                then s1\<lparr>db := (db s1)\<lparr>anomaly_alerts := anomaly_alerts (db s1) @ [alert]\<rparr>\<rparr>
                else s1\<lparr>logged := logged s1 @ [LogError ''Error persisting alert'']\<rparr>);
          s3 = s2\<lparr>logged := logged s2 @
                 [LogWarning (PyStr ''ANOMALY ALERT '' # PyStr (severity alert) # description alert)]\<rparr>
      in s3\<lparr>alerts := filter (\<lambda>a. alert_timestamp a > now - 24 * 3600) (alerts s3)\<rparr>)"

definition response_time_alert :: "ScoringEvent \<Rightarrow> real \<Rightarrow> real \<Rightarrow> real \<Rightarrow> real \<Rightarrow> AnomalyAlert" where
  "response_time_alert event current_time avg_time baseline_avg spike =
     \<lparr>alert_timestamp = current_time,
      alert_type = ''response_time_spike'',
      severity = ''high'',
      description = [PyStr ''Response time spike detected: '', PyNum avg_time,
                     PyStr ''s (baseline: '', PyNum baseline_avg, PyStr ''s)''],
      affected_entities = [api_key event],
      metrics = [(''current_avg_time'', PyNum avg_time),
                 (''baseline_avg_time'', PyNum baseline_avg),
                 (''spike_factor'', PyNum spike)],
      recommendations = [''Check system resources and database performance'',
                         ''Review recent model changes'',
                         ''Consider scaling infrastructure'']\<rparr>"

definition detect_response_time_anomalies ::
  "ScoringEvent \<Rightarrow> real \<Rightarrow> bool \<Rightarrow> ScoringMonitor \<Rightarrow> outcome" where
  "detect_response_time_anomalies event current_time db_ok s =
     (if length (recent_response_times s) < 10 then (s, None)
      else case statistics_mean (recent_response_times s) of
        Inl err \<Rightarrow> (s, Some err)
      | Inr avg_time \<Rightarrow>
          let baseline_avg = avg_processing_time (baseline_metrics s);
              baseline_std = std_processing_time (baseline_metrics s)
          in if avg_time > baseline_avg + 3 * baseline_std
             then (case py_div avg_time baseline_avg of
                     Inl err \<Rightarrow> (s, Some err)
                   | Inr spike \<Rightarrow>
                       (trigger_alert
                          (response_time_alert event current_time avg_time baseline_avg spike)
                          current_time db_ok s, None))
             else (s, None))"

definition score_alert :: "real \<Rightarrow> string \<Rightarrow> real \<Rightarrow> real \<Rightarrow> AnomalyAlert" where
  "score_alert current_time sev recent_avg baseline_avg =
     \<lparr>alert_timestamp = current_time,
      alert_type = ''score_distribution_shift'',
      severity = sev,
      description = [PyStr ''Score distribution shift: '', PyNum recent_avg,
                     PyStr '' (baseline: '', PyNum baseline_avg, PyStr '')''],
      affected_entities = [''scoring_model''],
      metrics = [(''current_avg_score'', PyNum recent_avg),
                 (''baseline_avg_score'', PyNum baseline_avg),
                 (''deviation'', PyNum \<bar>recent_avg - baseline_avg\<bar>)],
      recommendations = [''Review model performance and training data'',
                         ''Check for data quality issues'',
                         ''Consider model retraining'']\<rparr>"

definition detect_score_anomalies ::
  "ScoringEvent \<Rightarrow> real \<Rightarrow> bool \<Rightarrow> ScoringMonitor \<Rightarrow> outcome" where
  "detect_score_anomalies event current_time db_ok s =
     (if length (recent_scores s) < 20 then (s, None)
      else case statistics_mean (recent_scores s) of
        Inl err \<Rightarrow> (s, Some err)
      | Inr recent_avg \<Rightarrow>
          let baseline_avg = avg_score (baseline_metrics s);
              baseline_std = std_score (baseline_metrics s)
          in if \<bar>recent_avg - baseline_avg\<bar> > 2 * baseline_std
             then (trigger_alert
                     (score_alert current_time
                        (if \<bar>recent_avg - baseline_avg\<bar> > 3 * baseline_std
                         then ''high'' else ''medium'')
                        recent_avg baseline_avg)
                     current_time db_ok s, None)
             else (s, None))"

definition traffic_alert :: "real \<Rightarrow> nat \<Rightarrow> real \<Rightarrow> real \<Rightarrow> AnomalyAlert" where
  "traffic_alert current_time current_rate baseline_rate spike =
     \<lparr>alert_timestamp = current_time,
      alert_type = ''traffic_spike'',
      severity = ''medium'',
      description = [PyStr ''Traffic spike detected: '', PyNum (real current_rate),
                     PyStr '' req/hour (baseline: '', PyNum baseline_rate, PyStr '')''],
      affected_entities = [''api_gateway''],
      metrics = [(''current_rate'', PyNum (real current_rate)),
                 (''baseline_rate'', PyNum baseline_rate),
                 (''spike_factor'', PyNum spike)],
      recommendations = [''Monitor system capacity'',
                         ''Check for potential DDoS or bot activity'',
                         ''Consider rate limiting adjustments'']\<rparr>"

definition detect_request_pattern_anomalies ::
  "ScoringEvent \<Rightarrow> real \<Rightarrow> bool \<Rightarrow> ScoringMonitor \<Rightarrow> outcome" where
  "detect_request_pattern_anomalies event current_time db_ok s =
     (let recent_hour_events =
            filter (\<lambda>e. timestamp e > current_time - 3600) (recent_events s);
          current_rate = length recent_hour_events;
          baseline_rate = requests_per_hour (baseline_metrics s)
      in if real current_rate > baseline_rate * 5
         then (case py_div (real current_rate) baseline_rate of
                 Inl err \<Rightarrow> (s, Some err)
               | Inr spike \<Rightarrow>
                   (trigger_alert (traffic_alert current_time current_rate baseline_rate spike)
                      current_time db_ok s, None))
         else (s, None))"

definition error_rate_alert :: "real \<Rightarrow> string \<Rightarrow> real \<Rightarrow> nat \<Rightarrow> nat \<Rightarrow> AnomalyAlert" where
  "error_rate_alert current_time sev error_rate n_total n_errors =
     \<lparr>alert_timestamp = current_time,
      alert_type = ''high_error_rate'',
      severity = sev,
      description = [PyStr ''High error rate detected: '', PyNum error_rate],
      affected_entities = [''api_service''],
      metrics = [(''error_rate'', PyNum error_rate),
                 (''total_requests'', PyNum (real n_total)),
                 (''error_requests'', PyNum (real n_errors))],
      recommendations = [''Check application logs for error details'',
                         ''Review recent deployments'',
                         ''Monitor system health'']\<rparr>"

definition detect_error_rate_anomalies :: "real \<Rightarrow> bool \<Rightarrow> ScoringMonitor \<Rightarrow> outcome" where
  "detect_error_rate_anomalies current_time db_ok s =
     (let recent = filter (\<lambda>e. timestamp e > current_time - 3600) (recent_events s)
      in if length recent < 10 then (s, None)
         else
           let error_events = filter (\<lambda>e. status_code e \<ge> 400) recent
           in case py_div (real (length error_events)) (real (length recent)) of
                Inl err \<Rightarrow> (s, Some err)
              | Inr error_rate \<Rightarrow>
                  if error_rate > 1 / 10
                  then (trigger_alert
                          (error_rate_alert current_time
                             (if error_rate > 3 / 10 then ''critical'' else ''high'')
                             error_rate (length recent) (length error_events))
                          current_time db_ok s, None)
                  else (s, None))"

definition repeat_user_alert :: "ScoringEvent \<Rightarrow> real \<Rightarrow> nat \<Rightarrow> AnomalyAlert" where
  "repeat_user_alert event current_time n =
     \<lparr>alert_timestamp = current_time,
      alert_type = ''repeat_user_requests'',
      severity = ''medium'',
      description = [PyStr ''User '', PyStr (user_id event), PyStr '' has made '',
                     PyNum (real n), PyStr '' requests''],
      affected_entities = [user_id event],
      metrics = [(''user_id'', PyStr (user_id event)), (''request_count'', PyNum (real n))],
      recommendations = [''Review user behavior patterns'',
                         ''Consider implementing user-specific rate limits'',
                         ''Check for potential abuse'']\<rparr>"

definition repeat_ip_alert :: "ScoringEvent \<Rightarrow> real \<Rightarrow> nat \<Rightarrow> AnomalyAlert" where
  "repeat_ip_alert event current_time n =
     \<lparr>alert_timestamp = current_time,
      alert_type = ''repeat_ip_requests'',
      severity = ''high'',
      description = [PyStr ''IP '', PyStr (ip_address event), PyStr '' has made '',
                     PyNum (real n), PyStr '' requests''],
      affected_entities = [ip_address event],
      metrics = [(''ip_address'', PyStr (ip_address event)),
                 (''request_count'', PyNum (real n))],
      recommendations = [''Implement IP-based rate limiting'',
                         ''Check for bot or scraping activity'',
                         ''Consider blocking suspicious IPs'']\<rparr>"

definition detect_repeat_request_anomalies ::
  "ScoringEvent \<Rightarrow> real \<Rightarrow> bool \<Rightarrow> ScoringMonitor \<Rightarrow> outcome" where
  "detect_repeat_request_anomalies event current_time db_ok s =
     (let user_recent_requests = user_request_counts s (user_id event);
          s1 = (if user_recent_requests > 50
                then trigger_alert (repeat_user_alert event current_time user_recent_requests)
                       current_time db_ok s
                else s);
          ip_recent_requests = ip_request_counts s1 (ip_address event)
      in if ip_recent_requests > 100
         then (trigger_alert (repeat_ip_alert event current_time ip_recent_requests)
                 current_time db_ok s1, None)
         else (s1, None))"

definition detect_anomalies :: "ScoringEvent \<Rightarrow> real \<Rightarrow> bool \<Rightarrow> ScoringMonitor \<Rightarrow> outcome" where
  "detect_anomalies event current_time db_ok s =
     (if int (length (recent_events s)) < alert_threshold s then (s, None)
      else
        and_then (detect_response_time_anomalies event current_time db_ok s) (\<lambda>s.
        and_then (detect_score_anomalies event current_time db_ok s) (\<lambda>s.
        and_then (detect_request_pattern_anomalies event current_time db_ok s) (\<lambda>s.
        and_then (detect_error_rate_anomalies current_time db_ok s) (\<lambda>s.
        detect_repeat_request_anomalies event current_time db_ok s)))))"

definition log_scoring_event :: "ScoringEvent \<Rightarrow> real \<Rightarrow> bool \<Rightarrow> ScoringMonitor \<Rightarrow> outcome" where
  "log_scoring_event event now db_ok s =
     (let s1 = s\<lparr>recent_events := deque_append (window_size s) (recent_events s) event\<rparr>;
          s2 = (case credit_score event of
                  Some score \<Rightarrow>
                    s1\<lparr>recent_scores := deque_append (window_size s1) (recent_scores s1) score\<rparr>
                | None \<Rightarrow> s1);
          s3 = s2\<lparr>recent_response_times :=
                    deque_append (window_size s2) (recent_response_times s2)
                      (processing_time event)\<rparr>;
          s4 = s3\<lparr>user_request_counts :=
                    (user_request_counts s3)
                      (user_id event := user_request_counts s3 (user_id event) + 1)\<rparr>;
          s5 = s4\<lparr>ip_request_counts :=
                    (ip_request_counts s4)
                      (ip_address event := ip_request_counts s4 (ip_address event) + 1)\<rparr>;
          s6 = persist_event event db_ok s5
      in detect_anomalies event now db_ok s6)"

subsection \<open>Baseline metrics and construction\<close>

text \<open>The query of \<open>_load_baseline_metrics\<close>: the events of the last seven days, newest
  first, at most 1000 of them. SQLite leaves the order of rows with equal timestamps open;
  here the row inserted later comes first.\<close>

definition baseline_query :: "real \<Rightarrow> database \<Rightarrow> event_row list" where
  "baseline_query now d =
     take 1000 (rev (sort_key r_timestamp
       (filter (\<lambda>r. r_timestamp r > now - 7 * 24 * 3600) (scoring_events d))))"

text \<open>The loop that decodes \<open>response_data\<close> and collects the scores; it is the same in
  \<open>_load_baseline_metrics\<close> and in \<open>generate_weekly_summary\<close>.\<close>

fun scores_of_rows :: "event_row list \<Rightarrow> real list" where
  "scores_of_rows [] = []"
| "scores_of_rows (r # rs) =
     (case r_response_data r of
        Undecodable \<Rightarrow> scores_of_rows rs
      | Decoded None \<Rightarrow> scores_of_rows rs
      | Decoded (Some score) \<Rightarrow> score # scores_of_rows rs)"

text \<open>Evaluation of an expression that may raise, followed by the rest.\<close>

definition try_bind :: "py_error + 'a \<Rightarrow> ('a \<Rightarrow> py_error + 'b) \<Rightarrow> py_error + 'b" where
  "try_bind r f = (case r of Inl err \<Rightarrow> Inl err | Inr v \<Rightarrow> f v)"

text \<open>The dictionary built from a non-empty query result.\<close>

definition baseline_of_events :: "event_row list \<Rightarrow> real \<Rightarrow> py_error + BaselineMetrics" where
  "baseline_of_events events now =
     (let processing_times = map r_processing_time events;
          scores = scores_of_rows events
      in try_bind (statistics_mean processing_times) (\<lambda>avg_pt.
         try_bind (if length processing_times > 1 then statistics_stdev processing_times
                   else Inr 0) (\<lambda>std_pt.
         try_bind (if scores \<noteq> [] then statistics_mean scores else Inr 500) (\<lambda>avg_sc.
         try_bind (if length scores > 1 then statistics_stdev scores else Inr 100) (\<lambda>std_sc.
         Inr \<lparr>avg_processing_time = avg_pt, std_processing_time = std_pt,
              avg_score = avg_sc, std_score = std_sc,
              requests_per_hour = real (length events) / (7 * 24),
              last_updated = now\<rparr>)))))"

definition load_baseline_metrics :: "real \<Rightarrow> bool \<Rightarrow> ScoringMonitor \<Rightarrow> ScoringMonitor" where
  "load_baseline_metrics now db_ok s =
     (if \<not> db_ok
      then s\<lparr>baseline_metrics := default_baseline now,
             logged := logged s @ [LogError ''Error loading baseline metrics'']\<rparr>
      else
        let events = baseline_query now (db s)
        in if events \<noteq> []
           then (case baseline_of_events events now of
                   Inl err \<Rightarrow>
                     s\<lparr>baseline_metrics := default_baseline now,
                       logged := logged s @ [LogError ''Error loading baseline metrics'']\<rparr>
                 | Inr b \<Rightarrow> s\<lparr>baseline_metrics := b\<rparr>)
           else s\<lparr>baseline_metrics := default_baseline now\<rparr>)"

text \<open>\<open>__init__\<close> over the database found at \<open>db_path\<close>; \<open>db_ok\<close> is for the baseline
  query. The defaults of its parameters follow.\<close>

definition ScoringMonitor_init ::
  "database \<Rightarrow> nat \<Rightarrow> int \<Rightarrow> real \<Rightarrow> bool \<Rightarrow> ScoringMonitor" where
  "ScoringMonitor_init d w t now db_ok =
     load_baseline_metrics now db_ok
       \<lparr>window_size = w, alert_threshold = t, recent_events = [], recent_scores = [],
        recent_response_times = [], baseline_metrics = default_baseline now, alerts = [],
        user_request_counts = (\<lambda>u. 0), ip_request_counts = (\<lambda>a. 0), db = d,
        logged = []\<rparr>"

definition default_window_size :: nat where
  "default_window_size = 1000"

definition default_alert_threshold :: int where
  "default_alert_threshold = 10"

text \<open>A caller that ingests one event after the other, whatever each call raises. A call
  is the event, the clock and the state of sqlite3.\<close>

fun ingest_all :: "(ScoringEvent \<times> real \<times> bool) list \<Rightarrow> ScoringMonitor \<Rightarrow> ScoringMonitor" where
  "ingest_all [] s = s"
| "ingest_all ((event, now, db_ok) # calls) s =
     ingest_all calls (fst (log_scoring_event event now db_ok s))"

subsection \<open>Weekly summary\<close>

text \<open>Indexing of a list by a Python integer: a negative index counts from the end.\<close>

definition py_index :: "'a list \<Rightarrow> int \<Rightarrow> py_error + 'a" where
  "py_index xs i =
     (if 0 \<le> i \<and> i < int (length xs) then Inr (xs ! nat i)
      else if - int (length xs) \<le> i \<and> i < 0 then Inr (xs ! nat (int (length xs) + i))
      else Inl IndexError)"

text \<open>\<open>int(a / 100)\<close> for an integer \<open>a\<close>: the quotient, truncated towards zero.\<close>

definition int_of_hundredths :: "int \<Rightarrow> int" where
  "int_of_hundredths a = (if 0 \<le> a then a div 100 else - ((- a) div 100))"

definition percentile :: "real list \<Rightarrow> int \<Rightarrow> py_error + real" where
  "percentile data p =
     (if data = [] then Inr 0
      else
        let sorted_data = sort data;
            index = int_of_hundredths (int (length sorted_data) * p)
        in py_index sorted_data (min index (int (length sorted_data) - 1)))"

text \<open>A dictionary from range names to counts, in insertion order; \<open>d[k] += 1\<close> for a
  key that is present.\<close>

definition increment :: "string \<Rightarrow> (string \<times> nat) list \<Rightarrow> (string \<times> nat) list" where
  "increment k d = map (\<lambda>(k', v). if k' = k then (k', v + 1) else (k', v)) d"

fun count_scores :: "real list \<Rightarrow> (string \<times> nat) list \<Rightarrow> (string \<times> nat) list" where
  "count_scores [] distribution = distribution"
| "count_scores (score # scores) distribution =
     count_scores scores
       (if score < 580 then increment ''poor (0-579)'' distribution
        else if score < 670 then increment ''fair (580-669)'' distribution
        else if score < 740 then increment ''good (670-739)'' distribution
        else if score < 800 then increment ''very_good (740-799)'' distribution
        else increment ''excellent (800-1000)'' distribution)"

definition calculate_score_distribution :: "real list \<Rightarrow> (string \<times> nat) list" where
  "calculate_score_distribution scores =
     (if scores = [] then []
      else count_scores scores
             [(''poor (0-579)'', 0), (''fair (580-669)'', 0), (''good (670-739)'', 0),
              (''very_good (740-799)'', 0), (''excellent (800-1000)'', 0)])"

text \<open>The summary dictionary without \<open>period\<close>, \<open>alert_types\<close> and \<open>recommendations\<close>.\<close>

record weekly_summary =
  total_requests :: nat
  daily_average :: real
  unique_users :: nat
  unique_partners :: nat
  requests_per_user :: real
  avg_response_time :: real
  p95_response_time :: real
  error_rate :: real
  uptime_percentage :: real
  total_scores_generated :: nat
  avg_credit_score :: real
  score_distribution :: "(string \<times> nat) list"
  total_alerts :: nat
  critical_alerts :: nat
  high_alerts :: nat

text \<open>The rows of a table with \<open>timestamp BETWEEN start AND end ORDER BY timestamp\<close>.\<close>

definition between_query :: "('r \<Rightarrow> real) \<Rightarrow> real \<Rightarrow> real \<Rightarrow> 'r list \<Rightarrow> 'r list" where
  "between_query ts start_time end_time rows =
     sort_key ts (filter (\<lambda>r. start_time \<le> ts r \<and> ts r \<le> end_time) rows)"

text \<open>\<open>generate_weekly_summary\<close> reads only; an exception ends in the dictionary
  \<open>{"error": ...}\<close>, which is \<open>None\<close> here.\<close>

definition summary_of_rows ::
  "event_row list \<Rightarrow> AnomalyAlert list \<Rightarrow> py_error + weekly_summary" where
  "summary_of_rows events alert_rows =
     (let n_requests = length events;
          n_users = length (remdups (map r_user_id events));
          n_partners = length (remdups (map r_api_key events));
          processing_times = map r_processing_time events;
          scores = scores_of_rows events;
          error_count = length (filter (\<lambda>r. r_status_code r \<ge> 400) events)
      in try_bind (if processing_times \<noteq> [] then statistics_mean processing_times
                   else Inr 0) (\<lambda>avg_rt.
         try_bind (if processing_times \<noteq> [] then percentile processing_times 95
                   else Inr 0) (\<lambda>p95.
         try_bind (if scores \<noteq> [] then statistics_mean scores else Inr 0) (\<lambda>avg_sc.
         Inr \<lparr>total_requests = n_requests,
              daily_average = real n_requests / 7,
              unique_users = n_users,
              unique_partners = n_partners,
              requests_per_user =
                (if n_users > 0 then real n_requests / real n_users else 0),
              avg_response_time = avg_rt,
              p95_response_time = p95,
              error_rate =
                (if n_requests > 0 then real error_count / real n_requests else 0),
              uptime_percentage =
                (if n_requests > 0
                 then real (n_requests - error_count) / real n_requests * 100 else 100),
              total_scores_generated = length scores,
              avg_credit_score = avg_sc,
              score_distribution = calculate_score_distribution scores,
              total_alerts = length alert_rows,
              critical_alerts =
                length (filter (\<lambda>a. severity a = ''critical'') alert_rows),
              high_alerts = length (filter (\<lambda>a. severity a = ''high'') alert_rows)\<rparr>))))"

definition generate_weekly_summary ::
  "real \<Rightarrow> bool \<Rightarrow> ScoringMonitor \<Rightarrow> weekly_summary option" where
  "generate_weekly_summary now db_ok s =
     (if \<not> db_ok then None
      else
        let end_time = now;
            start_time = end_time - 7 * 24 * 3600;
            events = between_query r_timestamp start_time end_time (scoring_events (db s));
            alert_rows =
              between_query alert_timestamp start_time end_time (anomaly_alerts (db s))
        in case summary_of_rows events alert_rows of
             Inl err \<Rightarrow> None
           | Inr summary \<Rightarrow> Some summary)"

subsection \<open>Retention\<close>

text \<open>\<open>cleanup_old_data\<close> has no \<open>return\<close> statement: the second component of the result
  is the value the Python call evaluates to, and \<open>None\<close> stands for Python's \<open>None\<close>. A
  failure of sqlite3 rolls the transaction back.\<close>

definition cleanup_old_data ::
  "int \<Rightarrow> real \<Rightarrow> bool \<Rightarrow> ScoringMonitor \<Rightarrow> ScoringMonitor \<times> (nat \<times> nat) option" where
  "cleanup_old_data days_to_keep now db_ok s =
     (let cutoff_time = now - real_of_int days_to_keep * 24 * 3600
      in if db_ok
         then
           let events_deleted =
                 length (filter (\<lambda>r. r_timestamp r < cutoff_time) (scoring_events (db s)));
               alerts_deleted =
                 length (filter (\<lambda>a. alert_timestamp a < cutoff_time) (anomaly_alerts (db s)))
           in (s\<lparr>db := \<lparr>scoring_events =
                            filter (\<lambda>r. \<not> r_timestamp r < cutoff_time) (scoring_events (db s)),
                         anomaly_alerts =
                            filter (\<lambda>a. \<not> alert_timestamp a < cutoff_time)
                              (anomaly_alerts (db s))\<rparr>,
                 logged := logged s @
                   [LogInfo [PyStr ''Cleanup completed: '', PyNum (real events_deleted),
                             PyStr '' events, '', PyNum (real alerts_deleted),
                             PyStr '' alerts deleted'']]\<rparr>, None)
         else (s\<lparr>logged := logged s @ [LogError ''Error during cleanup'']\<rparr>, None))"

subsection \<open>Observations and sample inputs\<close>

text \<open>The sliding windows with their capacity.\<close>

definition windows :: "ScoringMonitor \<Rightarrow> nat \<times> ScoringEvent list \<times> real list \<times> real list" where
  "windows s = (window_size s, recent_events s, recent_scores s, recent_response_times s)"

definition windows_bounded :: "nat \<Rightarrow> ScoringMonitor \<Rightarrow> bool" where
  "windows_bounded w s \<longleftrightarrow>
     window_size s = w \<and> length (recent_events s) \<le> w \<and> length (recent_scores s) \<le> w
     \<and> length (recent_response_times s) \<le> w"

text \<open>The alerts of one type in memory that were raised at the instant \<open>now\<close>.\<close>

definition fired :: "string \<Rightarrow> real \<Rightarrow> ScoringMonitor \<Rightarrow> AnomalyAlert list" where
  "fired ty now s = filter (\<lambda>a. alert_type a = ty \<and> alert_timestamp a = now) (alerts s)"



text \<open>The arithmetic mean and the sample standard deviation, as formulas.\<close>

definition average :: "real list \<Rightarrow> real" where
  "average xs = sum_list xs / real (length xs)"


text \<open>Sample inputs: an event of user \<open>u1\<close>, a database without rows, a database whose
  only event took no time, a monitor given by its windows and baseline, and \<open>n\<close>
  successive calls with the same processing time and score.\<close>

definition event_at :: "real \<Rightarrow> real \<Rightarrow> int \<Rightarrow> real option \<Rightarrow> ScoringEvent" where
  "event_at ts pt code score =
     \<lparr>timestamp = ts, user_id = ''u1'', api_key = ''k1'', credit_score = score,
      processing_time = pt, ip_address = ''10.0.0.1'', user_agent = ''agent'',
      status_code = code, error_message = None\<rparr>"

definition empty_database :: database where
  "empty_database = \<lparr>scoring_events = [], anomaly_alerts = []\<rparr>"

definition idle_history :: database where
  "idle_history =
     \<lparr>scoring_events = [row_of_event (event_at 0 0 200 None)], anomaly_alerts = []\<rparr>"

definition calls_with :: "real \<Rightarrow> real option \<Rightarrow> nat \<Rightarrow> (ScoringEvent \<times> real \<times> bool) list" where
  "calls_with pt score n =
     map (\<lambda>k. (event_at (100 + real k) pt 200 score, 100 + real k, True)) [1 ..< Suc n]"

definition monitor_with ::
  "BaselineMetrics \<Rightarrow> ScoringEvent list \<Rightarrow> real list \<Rightarrow> real list \<Rightarrow> ScoringMonitor" where
  "monitor_with b events scores latencies =
     \<lparr>window_size = 1000, alert_threshold = 10, recent_events = events,
      recent_scores = scores, recent_response_times = latencies, baseline_metrics = b,
      alerts = [], user_request_counts = (\<lambda>u. 0), ip_request_counts = (\<lambda>a. 0),
      db = empty_database, logged = []\<rparr>"


definition zero_variance_baseline :: BaselineMetrics where
  "zero_variance_baseline =
     \<lparr>avg_processing_time = 1 / 2, std_processing_time = 0, avg_score = 500,
      std_score = 0, requests_per_hour = 10, last_updated = 0\<rparr>"



text \<open>A store with two events and one alert, for retention; a store whose ten events have
  the processing times 0.1, 0.2, ..., 1.0.\<close>

definition retention_store :: database where
  "retention_store =
     \<lparr>scoring_events =
        [row_of_event (event_at 0 1 200 None), row_of_event (event_at 150 1 200 None)],
      anomaly_alerts = [error_rate_alert 50 ''high'' (1 / 5) 10 2]\<rparr>"

definition latency_history :: database where
  "latency_history =
     \<lparr>scoring_events =
        map (\<lambda>pt. row_of_event (event_at (10 * pt) pt 200 None))
          [1 / 10, 2 / 10, 3 / 10, 4 / 10, 5 / 10, 6 / 10, 7 / 10, 8 / 10, 9 / 10, 1],
      anomaly_alerts = []\<rparr>"

section \<open>Sliding windows\<close>

text \<open>Detection, persistence and the baseline leave the windows alone.\<close>

lemma windows_trigger_alert [simp]: "windows (trigger_alert a now ok s) = windows s"
  by (simp add: windows_def trigger_alert_def Let_def)

lemma windows_persist_event [simp]: "windows (persist_event e ok s) = windows s"
  by (simp add: windows_def persist_event_def)

lemma windows_response_time [simp]:
  "windows (fst (detect_response_time_anomalies e now ok s)) = windows s"
  by (simp add: detect_response_time_anomalies_def Let_def split: sum.splits)

lemma windows_score [simp]:
  "windows (fst (detect_score_anomalies e now ok s)) = windows s"
  by (simp add: detect_score_anomalies_def Let_def split: sum.splits)

lemma windows_request_pattern [simp]:
  "windows (fst (detect_request_pattern_anomalies e now ok s)) = windows s"
  by (simp add: detect_request_pattern_anomalies_def Let_def split: sum.splits)

lemma windows_error_rate [simp]:
  "windows (fst (detect_error_rate_anomalies now ok s)) = windows s"
  by (simp add: detect_error_rate_anomalies_def Let_def split: sum.splits)

lemma windows_repeat [simp]:
  "windows (fst (detect_repeat_request_anomalies e now ok s)) = windows s"
  by (simp add: detect_repeat_request_anomalies_def Let_def)

lemma windows_and_then:
  assumes "windows (fst r) = w" and "\<And>s. windows s = w \<Longrightarrow> windows (fst (f s)) = w"
  shows "windows (fst (and_then r f)) = w"
  using assms by (cases r) (auto simp: and_then_def split: option.splits)

lemma windows_detect_anomalies [simp]:
  "windows (fst (detect_anomalies e now ok s)) = windows s"
  unfolding detect_anomalies_def
  by (auto intro!: windows_and_then)

lemma windows_log_scoring_event:
  "windows (fst (log_scoring_event e now ok s)) =
     (window_size s,
      deque_append (window_size s) (recent_events s) e,
      (case credit_score e of
         Some c \<Rightarrow> deque_append (window_size s) (recent_scores s) c
       | None \<Rightarrow> recent_scores s),
      deque_append (window_size s) (recent_response_times s) (processing_time e))"
proof -
  have "windows (fst (log_scoring_event e now ok s)) =
        windows (s\<lparr>recent_events := deque_append (window_size s) (recent_events s) e,
                   recent_scores := (case credit_score e of
                       Some c \<Rightarrow> deque_append (window_size s) (recent_scores s) c
                     | None \<Rightarrow> recent_scores s),
                   recent_response_times :=
                     deque_append (window_size s) (recent_response_times s) (processing_time e)\<rparr>)"
    by (cases "credit_score e") (simp_all add: log_scoring_event_def Let_def, simp_all add: windows_def)
  then show ?thesis by (simp add: windows_def)
qed

lemma windows_load_baseline [simp]: "windows (load_baseline_metrics now ok s) = windows s"
  by (simp add: load_baseline_metrics_def Let_def windows_def split: sum.splits)

lemma length_deque_append: "length q \<le> m \<Longrightarrow> length (deque_append m q x) \<le> m"
  by (simp add: deque_append_def)

lemma windows_bounded_windows:
  "windows_bounded w s \<longleftrightarrow>
     (case windows s of (n, es, scs, rts) \<Rightarrow>
        n = w \<and> length es \<le> w \<and> length scs \<le> w \<and> length rts \<le> w)"
  by (simp add: windows_bounded_def windows_def)

lemma windows_bounded_init: "windows_bounded w (ScoringMonitor_init d w t now ok)"
  by (simp add: windows_bounded_windows ScoringMonitor_init_def) (simp add: windows_def)

lemma windows_bounded_step:
  "windows_bounded w s \<Longrightarrow> windows_bounded w (fst (log_scoring_event e now ok s))"
  unfolding windows_bounded_windows windows_log_scoring_event
  by (auto simp: windows_def length_deque_append split: option.splits)

lemma windows_bounded_ingest_all:
  "windows_bounded w s \<Longrightarrow> windows_bounded w (ingest_all calls s)"
  by (induction calls s rule: ingest_all.induct) (auto intro: windows_bounded_step)

lemma recent_events_step:
  "recent_events (fst (log_scoring_event e now ok s)) =
     deque_append (window_size s) (recent_events s) e"
  using windows_log_scoring_event [of e now ok s] by (simp add: windows_def)

lemma recent_response_times_step:
  "recent_response_times (fst (log_scoring_event e now ok s)) =
     deque_append (window_size s) (recent_response_times s) (processing_time e)"
  using windows_log_scoring_event [of e now ok s] by (simp add: windows_def)

lemma recent_scores_step:
  "recent_scores (fst (log_scoring_event e now ok s)) =
     (case credit_score e of
        Some c \<Rightarrow> deque_append (window_size s) (recent_scores s) c
      | None \<Rightarrow> recent_scores s)"
  using windows_log_scoring_event [of e now ok s] by (simp add: windows_def)

lemma deque_append_full:
  "length q = m \<Longrightarrow> 0 < m \<Longrightarrow> deque_append m q x = tl q @ [x]"
  by (cases q) (auto simp: deque_append_def)

lemma deque_append_zero: "deque_append 0 q x = tl (q @ [x])"
  by (simp add: deque_append_def)

lemma deque_append_room: "length q < m \<Longrightarrow> deque_append m q x = q @ [x]"
  by (simp add: deque_append_def)

text \<open>
  Claim C2. After every sequence of ingestion calls on a freshly constructed monitor of
  capacity \<open>w\<close>, each of the three windows holds at most \<open>w\<close> entries. The next ingestion
  appends to a window that is below capacity and, in a window that is at capacity, drops
  exactly the oldest entry and puts the new one last; the score window changes only for an
  event that carries a score. With capacity \<open>0\<close> the windows stay empty. The default
  capacity is \<open>default_window_size\<close>, that is 1000.
\<close>

theorem sliding_windows_bounded_fifo:
  fixes calls :: "(ScoringEvent \<times> real \<times> bool) list"
  shows
  "(let s = ingest_all calls (ScoringMonitor_init d w t now0 ok0);
        s' = fst (log_scoring_event event now db_ok s)
    in window_size s = w
     \<and> length (recent_events s) \<le> w
     \<and> length (recent_scores s) \<le> w
     \<and> length (recent_response_times s) \<le> w
     \<and> (length (recent_events s) < w \<longrightarrow> recent_events s' = recent_events s @ [event])
     \<and> (length (recent_events s) = w \<and> 0 < w \<longrightarrow>
          recent_events s' = tl (recent_events s) @ [event])
     \<and> (length (recent_response_times s) < w \<longrightarrow>
          recent_response_times s' = recent_response_times s @ [processing_time event])
     \<and> (length (recent_response_times s) = w \<and> 0 < w \<longrightarrow>
          recent_response_times s' = tl (recent_response_times s) @ [processing_time event])
     \<and> (\<forall>score. credit_score event = Some score \<and> length (recent_scores s) < w \<longrightarrow>
          recent_scores s' = recent_scores s @ [score])
     \<and> (\<forall>score. credit_score event = Some score \<and> length (recent_scores s) = w \<and> 0 < w \<longrightarrow>
          recent_scores s' = tl (recent_scores s) @ [score])
     \<and> (credit_score event = None \<longrightarrow> recent_scores s' = recent_scores s)
     \<and> (w = 0 \<longrightarrow> recent_events s' = [] \<and> recent_scores s' = []
                    \<and> recent_response_times s' = []))
   \<and> default_window_size = 1000"
proof -
  define s where "s = ingest_all calls (ScoringMonitor_init d w t now0 ok0)"
  have b: "windows_bounded w s"
    unfolding s_def by (rule windows_bounded_ingest_all) (rule windows_bounded_init)
  then have ws: "window_size s = w"
    and le: "length (recent_events s) \<le> w" "length (recent_scores s) \<le> w"
            "length (recent_response_times s) \<le> w"
    by (simp_all add: windows_bounded_def)
  show ?thesis
    unfolding Let_def s_def [symmetric]
    using ws le
    by (auto simp: recent_events_step recent_response_times_step recent_scores_step
          deque_append_full deque_append_room deque_append_zero default_window_size_def
          split: option.splits)
qed


lemma init_empty_database:
  "ScoringMonitor_init empty_database w t now True =
     \<lparr>window_size = w, alert_threshold = t, recent_events = [], recent_scores = [],
      recent_response_times = [], baseline_metrics = default_baseline now, alerts = [],
      user_request_counts = (\<lambda>u. 0), ip_request_counts = (\<lambda>a. 0), db = empty_database,
      logged = []\<rparr>"
  by (simp add: ScoringMonitor_init_def load_baseline_metrics_def baseline_query_def
        empty_database_def)

theorem sliding_windows_bounded_fifo_witness:
  "length (recent_events (ingest_all (calls_with 1 (Some 700) 1)
       (ScoringMonitor_init empty_database 2 10 0 True))) < 2
   \<and> recent_events (fst (log_scoring_event (event_at 200 3 200 (Some 650)) 200 True
        (ingest_all (calls_with 1 (Some 700) 1)
           (ScoringMonitor_init empty_database 2 10 0 True)))) =
      [event_at 101 1 200 (Some 700), event_at 200 3 200 (Some 650)]
   \<and> length (recent_events (ingest_all (calls_with 1 (Some 700) 2)
       (ScoringMonitor_init empty_database 2 10 0 True))) = 2
   \<and> recent_events (fst (log_scoring_event (event_at 200 3 200 (Some 650)) 200 True
        (ingest_all (calls_with 1 (Some 700) 2)
           (ScoringMonitor_init empty_database 2 10 0 True)))) =
      [event_at 102 1 200 (Some 700), event_at 200 3 200 (Some 650)]
   \<and> recent_scores (fst (log_scoring_event (event_at 200 3 200 (Some 650)) 200 True
        (ingest_all (calls_with 1 (Some 700) 2)
           (ScoringMonitor_init empty_database 2 10 0 True)))) = [700, 650]
   \<and> recent_response_times (fst (log_scoring_event (event_at 200 3 200 (Some 650)) 200 True
        (ingest_all (calls_with 1 (Some 700) 2)
           (ScoringMonitor_init empty_database 2 10 0 True)))) = [1, 3]"
proof -
  let ?s0 = "ScoringMonitor_init empty_database 2 10 0 True"
  let ?s1 = "ingest_all (calls_with 1 (Some 700) 1) ?s0"
  let ?s2 = "ingest_all (calls_with 1 (Some 700) 2) ?s0"
  let ?e = "event_at 200 3 200 (Some 650)"
  have e1: "recent_events ?s1 = [event_at 101 1 200 (Some 700)]"
    unfolding init_empty_database by code_simp
  have e2: "recent_events ?s2 = [event_at 101 1 200 (Some 700), event_at 102 1 200 (Some 700)]"
    unfolding init_empty_database by code_simp
  have sc2: "recent_scores ?s2 = [700, 700]"
    unfolding init_empty_database by code_simp
  have rt2: "recent_response_times ?s2 = [1, 1]"
    unfolding init_empty_database by code_simp
  have cs: "credit_score ?e = Some 650" and pt: "processing_time ?e = 3"
    by (simp_all add: event_at_def)
  have l1: "length (recent_events ?s1) < 2" and l2: "length (recent_events ?s2) = 2 \<and> (0::nat) < 2"
    and l3: "length (recent_scores ?s2) = 2 \<and> (0::nat) < 2"
    and l4: "length (recent_response_times ?s2) = 2 \<and> (0::nat) < 2"
    by (simp_all only: e1 e2 sc2 rt2) simp_all
  note a = sliding_windows_bounded_fifo [of "calls_with 1 (Some 700) 1" empty_database 2 10 0 True
      ?e 200 True, unfolded Let_def]
  note b = sliding_windows_bounded_fifo [of "calls_with 1 (Some 700) 2" empty_database 2 10 0 True
      ?e 200 True, unfolded Let_def]
  from a l1 have r1: "recent_events (fst (log_scoring_event ?e 200 True ?s1)) =
      recent_events ?s1 @ [?e]"
    by blast
  from b l2 have r2: "recent_events (fst (log_scoring_event ?e 200 True ?s2)) =
      tl (recent_events ?s2) @ [?e]"
    by blast
  from b l3 cs have r3: "recent_scores (fst (log_scoring_event ?e 200 True ?s2)) =
      tl (recent_scores ?s2) @ [650]"
    by blast
  from b l4 have r4: "recent_response_times (fst (log_scoring_event ?e 200 True ?s2)) =
      tl (recent_response_times ?s2) @ [processing_time ?e]"
    by blast
  show ?thesis
    unfolding r1 r2 r3 r4 pt unfolding e1 e2 sc2 rt2 by simp
qed

section \<open>Detectors\<close>

text \<open>What \<open>_trigger_alert\<close> adds to the alerts raised at the current instant, and what
  each detector does once its sample-size guard has passed.\<close>

lemma fired_trigger_alert:
  "fired ty now (trigger_alert a now ok s) =
     fired ty now s @ (if alert_type a = ty \<and> alert_timestamp a = now then [a] else [])"
  by (auto simp: fired_def trigger_alert_def Let_def intro!: filter_cong)

lemma statistics_mean_average: "xs \<noteq> [] \<Longrightarrow> statistics_mean xs = Inr (average xs)"
  by (simp add: statistics_mean_def average_def)

lemma response_time_outcome:
  assumes "10 \<le> length (recent_response_times s)"
    and "avg_processing_time (baseline_metrics s) \<noteq> 0"
  shows "detect_response_time_anomalies e now ok s =
     (if average (recent_response_times s) >
           avg_processing_time (baseline_metrics s) + 3 * std_processing_time (baseline_metrics s)
      then (trigger_alert
              (response_time_alert e now (average (recent_response_times s))
                 (avg_processing_time (baseline_metrics s))
                 (average (recent_response_times s) / avg_processing_time (baseline_metrics s)))
              now ok s, None)
      else (s, None))"
proof -
  from assms(1) have "recent_response_times s \<noteq> []" by auto
  then show ?thesis
    using assms
    by (simp add: detect_response_time_anomalies_def statistics_mean_average py_div_def Let_def)
qed

lemma score_outcome:
  assumes "20 \<le> length (recent_scores s)"
  shows "detect_score_anomalies e now ok s =
     (if \<bar>average (recent_scores s) - avg_score (baseline_metrics s)\<bar> >
           2 * std_score (baseline_metrics s)
      then (trigger_alert
              (score_alert now
                 (if \<bar>average (recent_scores s) - avg_score (baseline_metrics s)\<bar> >
                       3 * std_score (baseline_metrics s)
                  then ''high'' else ''medium'')
                 (average (recent_scores s)) (avg_score (baseline_metrics s)))
              now ok s, None)
      else (s, None))"
proof -
  from assms(1) have "recent_scores s \<noteq> []" by auto
  then show ?thesis
    using assms
    by (simp add: detect_score_anomalies_def statistics_mean_average Let_def)
qed


lemma alert_types [simp]:
  "alert_type (response_time_alert e now a b sp) = ''response_time_spike''"
  "alert_type (score_alert now sev a b) = ''score_distribution_shift''"
  "alert_type (traffic_alert now n r sp) = ''traffic_spike''"
  "alert_type (error_rate_alert now sev r n k) = ''high_error_rate''"
  "alert_type (repeat_user_alert e now n) = ''repeat_user_requests''"
  "alert_type (repeat_ip_alert e now n) = ''repeat_ip_requests''"
  by (simp_all add: response_time_alert_def score_alert_def traffic_alert_def
        error_rate_alert_def repeat_user_alert_def repeat_ip_alert_def)

lemma alert_timestamps [simp]:
  "alert_timestamp (response_time_alert e now a b sp) = now"
  "alert_timestamp (score_alert now sev a b) = now"
  "alert_timestamp (traffic_alert now n r sp) = now"
  "alert_timestamp (error_rate_alert now sev r n k) = now"
  "alert_timestamp (repeat_user_alert e now n) = now"
  "alert_timestamp (repeat_ip_alert e now n) = now"
  by (simp_all add: response_time_alert_def score_alert_def traffic_alert_def
        error_rate_alert_def repeat_user_alert_def repeat_ip_alert_def)

lemma fired_score_other:
  "ty \<noteq> ''score_distribution_shift'' \<Longrightarrow>
     fired ty now (fst (detect_score_anomalies e now ok s)) = fired ty now s"
  by (auto simp: detect_score_anomalies_def Let_def fired_trigger_alert split: sum.splits)

lemma fired_request_pattern_other:
  "ty \<noteq> ''traffic_spike'' \<Longrightarrow>
     fired ty now (fst (detect_request_pattern_anomalies e now ok s)) = fired ty now s"
  by (auto simp: detect_request_pattern_anomalies_def Let_def fired_trigger_alert split: sum.splits)

lemma fired_error_rate_other:
  "ty \<noteq> ''high_error_rate'' \<Longrightarrow>
     fired ty now (fst (detect_error_rate_anomalies now ok s)) = fired ty now s"
  by (auto simp: detect_error_rate_anomalies_def Let_def fired_trigger_alert split: sum.splits)

lemma fired_repeat_other:
  "ty \<noteq> ''repeat_user_requests'' \<Longrightarrow> ty \<noteq> ''repeat_ip_requests'' \<Longrightarrow>
     fired ty now (fst (detect_repeat_request_anomalies e now ok s)) = fired ty now s"
  by (auto simp: detect_repeat_request_anomalies_def Let_def fired_trigger_alert)

lemma fired_and_then:
  assumes "\<And>s'. fired ty now (fst (f s')) = fired ty now s'"
  shows "fired ty now (fst (and_then r f)) = fired ty now (fst r)"
  using assms by (cases r) (auto simp: and_then_def split: option.splits)

lemma fired_detect_anomalies_response_time:
  assumes "alert_threshold s \<le> int (length (recent_events s))"
  shows "fired ''response_time_spike'' now (fst (detect_anomalies e now ok s)) =
         fired ''response_time_spike'' now (fst (detect_response_time_anomalies e now ok s))"
  using assms unfolding detect_anomalies_def
  by (simp add: fired_and_then fired_score_other fired_request_pattern_other
        fired_error_rate_other fired_repeat_other)


lemma log_scoring_event_detects:
  obtains s6 where "log_scoring_event e now ok s = detect_anomalies e now ok s6"
    and "alerts s6 = alerts s" and "baseline_metrics s6 = baseline_metrics s"
    and "alert_threshold s6 = alert_threshold s"
proof -
  let ?s5 = "s\<lparr>recent_events := deque_append (window_size s) (recent_events s) e,
      recent_scores := (case credit_score e of
          Some c \<Rightarrow> deque_append (window_size s) (recent_scores s) c
        | None \<Rightarrow> recent_scores s),
      recent_response_times :=
        deque_append (window_size s) (recent_response_times s) (processing_time e),
      user_request_counts :=
        (user_request_counts s)(user_id e := user_request_counts s (user_id e) + 1),
      ip_request_counts :=
        (ip_request_counts s)(ip_address e := ip_request_counts s (ip_address e) + 1)\<rparr>"
  have "log_scoring_event e now ok s = detect_anomalies e now ok (persist_event e ok ?s5)"
    by (cases "credit_score e") (simp_all add: log_scoring_event_def Let_def)
  moreover have "alerts (persist_event e ok ?s5) = alerts s"
    "baseline_metrics (persist_event e ok ?s5) = baseline_metrics s"
    "alert_threshold (persist_event e ok ?s5) = alert_threshold s"
    by (simp_all add: persist_event_def)
  ultimately show thesis using that by blast
qed

text \<open>
  Claim C3, as amended. Take an ingestion after which the latency window holds at least 10
  samples and the event window holds at least \<open>alert_threshold\<close> events, on a baseline whose
  average processing time is not zero. It raises a response-time-spike alert exactly when
  the mean of the latency window is greater than the baseline average plus three times
  the baseline standard deviation; at or below that threshold it raises none. The alert has
  severity high and its metrics hold the spike factor, the mean divided by the baseline
  average. (For a zero baseline average nothing is stated here.)
\<close>

theorem response_time_spike_on_ingestion:
  assumes "s' = fst (log_scoring_event event now db_ok s)"
    and "10 \<le> length (recent_response_times s')"
    and "alert_threshold s \<le> int (length (recent_events s'))"
    and "avg_processing_time (baseline_metrics s) \<noteq> 0"
  shows "fired ''response_time_spike'' now s' =
           fired ''response_time_spike'' now s @
           (if average (recent_response_times s') >
                 avg_processing_time (baseline_metrics s)
                   + 3 * std_processing_time (baseline_metrics s)
            then [response_time_alert event now (average (recent_response_times s'))
                    (avg_processing_time (baseline_metrics s))
                    (average (recent_response_times s')
                       / avg_processing_time (baseline_metrics s))]
            else [])
         \<and> severity (response_time_alert event now a b spike) = ''high''
         \<and> map_of (metrics (response_time_alert event now a b spike)) ''spike_factor'' =
             Some (PyNum spike)"
proof -
  obtain s6 where run: "log_scoring_event event now db_ok s = detect_anomalies event now db_ok s6"
    and same: "alerts s6 = alerts s" "baseline_metrics s6 = baseline_metrics s"
      "alert_threshold s6 = alert_threshold s"
    by (rule log_scoring_event_detects)
  have "windows s' = windows s6"
    unfolding assms(1) run by simp
  then have w: "recent_response_times s6 = recent_response_times s'"
    "recent_events s6 = recent_events s'"
    by (simp_all add: windows_def)
  have gate: "alert_threshold s6 \<le> int (length (recent_events s6))"
    using assms(3) by (simp add: w same)
  have "fired ''response_time_spike'' now s' =
        fired ''response_time_spike'' now
          (fst (detect_response_time_anomalies event now db_ok s6))"
    unfolding assms(1) run by (rule fired_detect_anomalies_response_time [OF gate])
  also have "\<dots> = fired ''response_time_spike'' now s6 @
      (if average (recent_response_times s6) >
            avg_processing_time (baseline_metrics s6)
              + 3 * std_processing_time (baseline_metrics s6)
       then [response_time_alert event now (average (recent_response_times s6))
               (avg_processing_time (baseline_metrics s6))
               (average (recent_response_times s6) / avg_processing_time (baseline_metrics s6))]
       else [])"
    using assms(2,4) by (simp add: response_time_outcome w same fired_trigger_alert)
  also have "fired ''response_time_spike'' now s6 = fired ''response_time_spike'' now s"
    by (simp add: fired_def same)
  finally have "fired ''response_time_spike'' now s' =
           fired ''response_time_spike'' now s @
           (if average (recent_response_times s') >
                 avg_processing_time (baseline_metrics s)
                   + 3 * std_processing_time (baseline_metrics s)
            then [response_time_alert event now (average (recent_response_times s'))
                    (avg_processing_time (baseline_metrics s))
                    (average (recent_response_times s')
                       / avg_processing_time (baseline_metrics s))]
            else [])"
    by (simp add: w same)
  then show ?thesis
    by (simp add: response_time_alert_def)
qed

text \<open>
  With \<open>alert_threshold = 20\<close> the tenth ingestion of a five-second request leaves ten
  samples of mean 5 in the latency window, above the threshold \<open>0.5 + 3 \<times> 0.2\<close> of the
  default baseline, and no alert: \<open>_detect_anomalies\<close> returns before any detector runs.
\<close>

theorem response_time_gate_counterexample:
  "alert_threshold (ingest_all (calls_with 5 None 9)
       (ScoringMonitor_init empty_database 1000 20 0 True)) = 20
   \<and> baseline_metrics (ingest_all (calls_with 5 None 9)
       (ScoringMonitor_init empty_database 1000 20 0 True)) = default_baseline 0
   \<and> recent_response_times (fst (log_scoring_event (event_at 110 5 200 None) 110 True
       (ingest_all (calls_with 5 None 9) (ScoringMonitor_init empty_database 1000 20 0 True))))
       = [5, 5, 5, 5, 5, 5, 5, 5, 5, 5]
   \<and> average [5, 5, 5, 5, 5, 5, 5, 5, 5, 5] > 1 / 2 + 3 * (1 / 5)
   \<and> alerts (fst (log_scoring_event (event_at 110 5 200 None) 110 True
       (ingest_all (calls_with 5 None 9) (ScoringMonitor_init empty_database 1000 20 0 True)))) = []
   \<and> snd (log_scoring_event (event_at 110 5 200 None) 110 True
       (ingest_all (calls_with 5 None 9) (ScoringMonitor_init empty_database 1000 20 0 True))) = None"
  unfolding init_empty_database by code_simp

theorem response_time_spike_on_ingestion_witness:
  "fired ''response_time_spike'' 110
     (fst (log_scoring_event (event_at 110 5 200 None) 110 True
        (ingest_all (calls_with 5 None 9) (ScoringMonitor_init empty_database 1000 10 0 True)))) =
     [response_time_alert (event_at 110 5 200 None) 110 5 (1 / 2) 10]
   \<and> fired ''response_time_spike'' 110
     (fst (log_scoring_event (event_at 110 (1 / 2) 200 None) 110 True
        (ingest_all (calls_with (1 / 2) None 9) (ScoringMonitor_init empty_database 1000 10 0 True)))) =
     []"
proof -
  let ?s = "ingest_all (calls_with 5 None 9) (ScoringMonitor_init empty_database 1000 10 0 True)"
  let ?e = "event_at 110 5 200 None"
  let ?t = "ingest_all (calls_with (1 / 2) None 9) (ScoringMonitor_init empty_database 1000 10 0 True)"
  let ?f = "event_at 110 (1 / 2) 200 None"
  have s1: "10 \<le> length (recent_response_times (fst (log_scoring_event ?e 110 True ?s)))"
    and s2: "alert_threshold ?s \<le> int (length (recent_events (fst (log_scoring_event ?e 110 True ?s))))"
    and s3: "avg_processing_time (baseline_metrics ?s) \<noteq> 0"
    and s4: "fired ''response_time_spike'' 110 ?s = []"
    and s5: "average (recent_response_times (fst (log_scoring_event ?e 110 True ?s))) = 5"
    and s6: "avg_processing_time (baseline_metrics ?s) = 1 / 2"
    and s7: "std_processing_time (baseline_metrics ?s) = 1 / 5"
    unfolding init_empty_database by code_simp+
  have t1: "10 \<le> length (recent_response_times (fst (log_scoring_event ?f 110 True ?t)))"
    and t2: "alert_threshold ?t \<le> int (length (recent_events (fst (log_scoring_event ?f 110 True ?t))))"
    and t3: "avg_processing_time (baseline_metrics ?t) \<noteq> 0"
    and t4: "fired ''response_time_spike'' 110 ?t = []"
    and t5: "average (recent_response_times (fst (log_scoring_event ?f 110 True ?t))) = 1 / 2"
    and t6: "avg_processing_time (baseline_metrics ?t) = 1 / 2"
    and t7: "std_processing_time (baseline_metrics ?t) = 1 / 5"
    unfolding init_empty_database by code_simp+
  from response_time_spike_on_ingestion [OF refl s1 s2 s3]
  have a: "fired ''response_time_spike'' 110 (fst (log_scoring_event ?e 110 True ?s)) =
     [response_time_alert ?e 110 5 (1 / 2) 10]"
    unfolding s4 s5 s6 s7 by simp
  from response_time_spike_on_ingestion [OF refl t1 t2 t3]
  have b: "fired ''response_time_spike'' 110 (fst (log_scoring_event ?f 110 True ?t)) = []"
    unfolding t4 t5 t6 t7 by simp
  from a b show ?thesis by simp
qed





lemma average_replicate: "0 < n \<Longrightarrow> average (replicate n x) = x"
  by (simp add: average_def sum_list_replicate)

text \<open>
  Claim C7, as amended. No detector floors the baseline standard deviation; the stored
  value enters the comparison as it is. On a baseline with \<open>std_processing_time = 0\<close> (and a
  non-zero average, at least 10 samples) the response-time detector raises its alert as
  soon as the window mean is greater than the baseline average, and on a baseline with
  \<open>std_score = 0\<close> (at least 20 samples) the score detector raises an alert of severity
  high as soon as the window mean differs from the baseline average score.
\<close>

theorem no_stddev_floor:
  assumes "b = baseline_metrics s"
  shows "(std_processing_time b = 0 \<and> avg_processing_time b \<noteq> 0
            \<and> 10 \<le> length (recent_response_times s) \<longrightarrow>
          fired ''response_time_spike'' now
            (fst (detect_response_time_anomalies event now db_ok s)) =
          fired ''response_time_spike'' now s @
          (if average (recent_response_times s) > avg_processing_time b
           then [response_time_alert event now (average (recent_response_times s))
                   (avg_processing_time b)
                   (average (recent_response_times s) / avg_processing_time b)]
           else []))
       \<and> (std_score b = 0 \<and> 20 \<le> length (recent_scores s) \<longrightarrow>
          fired ''score_distribution_shift'' now
            (fst (detect_score_anomalies event now db_ok s)) =
          fired ''score_distribution_shift'' now s @
          (if average (recent_scores s) \<noteq> avg_score b
           then [score_alert now ''high'' (average (recent_scores s)) (avg_score b)]
           else []))"
  unfolding assms
  by (simp add: response_time_outcome score_outcome fired_trigger_alert)

theorem no_stddev_floor_witness:
  "fired ''response_time_spike'' 110
     (fst (detect_response_time_anomalies (event_at 110 (51 / 100) 200 None) 110 True
        (monitor_with zero_variance_baseline [] [] (replicate 10 (51 / 100))))) =
     [response_time_alert (event_at 110 (51 / 100) 200 None) 110 (51 / 100) (1 / 2) (51 / 50)]
   \<and> fired ''score_distribution_shift'' 110
     (fst (detect_score_anomalies (event_at 110 1 200 (Some 501)) 110 True
        (monitor_with zero_variance_baseline [] (replicate 20 501) []))) =
     [score_alert 110 ''high'' 501 500]"
proof -
  let ?m = "monitor_with zero_variance_baseline [] [] (replicate 10 (51 / 100))"
  let ?k = "monitor_with zero_variance_baseline [] (replicate 20 501) []"
  have m: "std_processing_time (baseline_metrics ?m) = 0
      \<and> avg_processing_time (baseline_metrics ?m) \<noteq> 0
      \<and> 10 \<le> length (recent_response_times ?m)"
    by (simp add: monitor_with_def zero_variance_baseline_def)
  have k: "std_score (baseline_metrics ?k) = 0 \<and> 20 \<le> length (recent_scores ?k)"
    by (simp add: monitor_with_def zero_variance_baseline_def)
  have v: "fired ''response_time_spike'' 110 ?m = []"
    "fired ''score_distribution_shift'' 110 ?k = []"
    "average (recent_response_times ?m) = 51 / 100" "average (recent_scores ?k) = 501"
    "avg_processing_time (baseline_metrics ?m) = 1 / 2" "avg_score (baseline_metrics ?k) = 500"
    by code_simp+
  from no_stddev_floor [where s = ?m and now = 110 and db_ok = True
         and event = "event_at 110 (51 / 100) 200 None", OF refl] m
  have 1: "fired ''response_time_spike'' 110
     (fst (detect_response_time_anomalies (event_at 110 (51 / 100) 200 None) 110 True ?m)) =
     [response_time_alert (event_at 110 (51 / 100) 200 None) 110 (51 / 100) (1 / 2) (51 / 50)]"
    unfolding v by simp
  from no_stddev_floor [where s = ?k and now = 110 and db_ok = True
         and event = "event_at 110 1 200 (Some 501)", OF refl] k
  have 2: "fired ''score_distribution_shift'' 110
     (fst (detect_score_anomalies (event_at 110 1 200 (Some 501)) 110 True ?k)) =
     [score_alert 110 ''high'' 501 500]"
    unfolding v by simp
  from 1 2 show ?thesis by simp
qed

text \<open>
  Were the standard deviation floored to some positive \<open>eps\<close> before the comparison, a
  baseline with average 0.5 and standard deviation 0 would let the response-time alert
  fire only for a window mean above \<open>0.5 + 3 \<times> eps\<close>. There is no such \<open>eps\<close>: ten samples
  of \<open>0.5 + eps\<close> raise the alert.
\<close>

theorem stddev_floor_counterexample:
  "\<not> (\<exists>eps>0. \<forall>x.
        fired ''response_time_spike'' 110
          (fst (detect_response_time_anomalies (event_at 110 x 200 None) 110 True
             (monitor_with zero_variance_baseline [] [] (replicate 10 x)))) \<noteq> []
        \<longrightarrow> x > 1 / 2 + 3 * eps)"
proof
  assume "\<exists>eps>0. \<forall>x.
        fired ''response_time_spike'' 110
          (fst (detect_response_time_anomalies (event_at 110 x 200 None) 110 True
             (monitor_with zero_variance_baseline [] [] (replicate 10 x)))) \<noteq> []
        \<longrightarrow> x > 1 / 2 + 3 * eps"
  then obtain eps :: real where pos: "0 < eps"
    and only: "\<And>x. fired ''response_time_spike'' 110
          (fst (detect_response_time_anomalies (event_at 110 x 200 None) 110 True
             (monitor_with zero_variance_baseline [] [] (replicate 10 x)))) \<noteq> []
        \<Longrightarrow> x > 1 / 2 + 3 * eps"
    by blast
  let ?x = "1 / 2 + eps"
  let ?m = "monitor_with zero_variance_baseline [] [] (replicate 10 ?x)"
  have "detect_response_time_anomalies (event_at 110 ?x 200 None) 110 True ?m =
      (trigger_alert (response_time_alert (event_at 110 ?x 200 None) 110 ?x (1 / 2) (?x / (1 / 2)))
         110 True ?m, None)"
    using pos
    by (subst response_time_outcome)
       (simp_all add: monitor_with_def zero_variance_baseline_def average_replicate)
  then have "fired ''response_time_spike'' 110
      (fst (detect_response_time_anomalies (event_at 110 ?x 200 None) 110 True ?m)) \<noteq> []"
    by (simp add: fired_trigger_alert)
  from only [OF this] pos show False by simp
qed

text \<open>
  An ingestion returns normally, whether sqlite3 works or not, on a baseline whose average
  processing time and hourly request rate are not zero: the two divisions of the detectors
  are the only expressions that can raise.
\<close>

lemma baseline_trigger_alert [simp]:
  "baseline_metrics (trigger_alert a now ok s) = baseline_metrics s"
  by (simp add: trigger_alert_def Let_def)

lemma baseline_response_time [simp]:
  "baseline_metrics (fst (detect_response_time_anomalies e now ok s)) = baseline_metrics s"
  by (simp add: detect_response_time_anomalies_def Let_def split: sum.splits)

lemma baseline_score [simp]:
  "baseline_metrics (fst (detect_score_anomalies e now ok s)) = baseline_metrics s"
  by (simp add: detect_score_anomalies_def Let_def split: sum.splits)

lemma baseline_request_pattern [simp]:
  "baseline_metrics (fst (detect_request_pattern_anomalies e now ok s)) = baseline_metrics s"
  by (simp add: detect_request_pattern_anomalies_def Let_def split: sum.splits)

lemma baseline_error_rate [simp]:
  "baseline_metrics (fst (detect_error_rate_anomalies now ok s)) = baseline_metrics s"
  by (simp add: detect_error_rate_anomalies_def Let_def split: sum.splits)

lemma returns_response_time:
  "avg_processing_time (baseline_metrics s) \<noteq> 0 \<Longrightarrow>
     snd (detect_response_time_anomalies e now ok s) = None"
  by (auto simp: detect_response_time_anomalies_def statistics_mean_def py_div_def Let_def)

lemma returns_score: "snd (detect_score_anomalies e now ok s) = None"
  by (auto simp: detect_score_anomalies_def statistics_mean_def Let_def)

lemma returns_request_pattern:
  "requests_per_hour (baseline_metrics s) \<noteq> 0 \<Longrightarrow>
     snd (detect_request_pattern_anomalies e now ok s) = None"
  by (auto simp: detect_request_pattern_anomalies_def py_div_def Let_def)

lemma returns_error_rate: "snd (detect_error_rate_anomalies now ok s) = None"
  by (auto simp: detect_error_rate_anomalies_def py_div_def Let_def)

lemma returns_repeat: "snd (detect_repeat_request_anomalies e now ok s) = None"
  by (simp add: detect_repeat_request_anomalies_def Let_def)

lemma returns_and_then:
  assumes "snd r = None" and "snd (f (fst r)) = None"
  shows "snd (and_then r f) = None"
  using assms by (cases r) (auto simp: and_then_def)

lemma returns_detect_anomalies:
  assumes "avg_processing_time (baseline_metrics s) \<noteq> 0"
    and "requests_per_hour (baseline_metrics s) \<noteq> 0"
  shows "snd (detect_anomalies e now ok s) = None"
  unfolding detect_anomalies_def using assms
  by (auto intro!: returns_and_then returns_response_time returns_score
        returns_request_pattern returns_error_rate returns_repeat)

lemma log_scoring_event_returns:
  assumes "avg_processing_time (baseline_metrics s) \<noteq> 0"
    and "requests_per_hour (baseline_metrics s) \<noteq> 0"
  shows "snd (log_scoring_event e now ok s) = None"
proof -
  obtain s6 where "log_scoring_event e now ok s = detect_anomalies e now ok s6"
    and "baseline_metrics s6 = baseline_metrics s"
    by (rule log_scoring_event_detects)
  with assms show ?thesis
    by (simp add: returns_detect_anomalies)
qed

text \<open>
  Claim C1 fails on the code. A monitor constructed over a history whose only event took
  no time has a baseline with \<open>avg_processing_time = 0\<close> and \<open>std_processing_time = 0\<close>. Its
  tenth ingestion of a request of 0.1 seconds passes both sample-size guards, finds the
  window mean above the threshold 0 and divides by the baseline average for the spike
  factor: \<open>ZeroDivisionError\<close> escapes \<open>log_scoring_event\<close>, which has no handler around
  detection.
\<close>

theorem log_scoring_event_raises:
  "baseline_metrics (ScoringMonitor_init idle_history 1000 10 100 True) =
     \<lparr>avg_processing_time = 0, std_processing_time = 0, avg_score = 500, std_score = 100,
      requests_per_hour = 1 / 168, last_updated = 100\<rparr>
   \<and> snd (log_scoring_event (event_at 110 (1 / 10) 200 None) 110 True
        (ingest_all (calls_with (1 / 10) None 9)
           (ScoringMonitor_init idle_history 1000 10 100 True))) = Some ZeroDivisionError"
proof -
  have i: "ScoringMonitor_init idle_history 1000 10 100 True =
     \<lparr>window_size = 1000, alert_threshold = 10, recent_events = [], recent_scores = [],
      recent_response_times = [],
      baseline_metrics =
        \<lparr>avg_processing_time = 0, std_processing_time = 0, avg_score = 500, std_score = 100,
         requests_per_hour = 1 / 168, last_updated = 100\<rparr>,
      alerts = [], user_request_counts = (\<lambda>u. 0), ip_request_counts = (\<lambda>a. 0),
      db = idle_history, logged = []\<rparr>"
    by (simp add: ScoringMonitor_init_def load_baseline_metrics_def baseline_query_def
          idle_history_def row_of_event_def event_at_def baseline_of_events_def try_bind_def
          statistics_mean_def Let_def)
  show ?thesis
    unfolding i by code_simp
qed

section \<open>Baseline\<close>








section \<open>Weekly summary and retention\<close>

lemma percentile_nonneg:
  assumes "data \<noteq> []" and "0 \<le> p"
  shows "percentile data p =
           Inr (sort data ! min (length data * nat p div 100) (length data - 1))"
proof -
  let ?n = "length data"
  let ?k = "?n * nat p div 100"
  from assms(1) have n: "0 < ?n" by simp
  have eq: "int ?n * p = int (?n * nat p)"
    using assms(2) by simp
  have idx: "int_of_hundredths (int ?n * p) = int ?k"
    unfolding int_of_hundredths_def eq by (simp only: of_nat_0_le_iff if_True zdiv_int) simp
  have pred: "int ?n - 1 = int (?n - 1)"
    using assms(1) by (cases data) simp_all
  have "min (int ?k) (int ?n - 1) = int (min ?k (?n - 1))"
    unfolding pred by (rule of_nat_min [symmetric])
  moreover have "min ?k (?n - 1) < length (sort data)"
    using assms(1) by (cases data) (simp_all add: min_def)
  moreover have "sort data \<noteq> []"
    using assms(1) by (cases data) simp_all
  ultimately show ?thesis
    using assms(1) by (simp add: percentile_def Let_def idx py_index_def)
qed

lemma summary_of_rows_p95:
  "\<exists>summary. summary_of_rows events alert_rows = Inr summary
     \<and> p95_response_time summary =
        (if events = [] then 0
         else sort (map r_processing_time events)
                ! min (length events * 95 div 100) (length events - 1))"
proof (cases "events = []")
  case True
  then show ?thesis
    by (simp add: summary_of_rows_def Let_def try_bind_def)
next
  case False
  then have "percentile (map r_processing_time events) 95 =
      Inr (sort (map r_processing_time events)
             ! min (length events * 95 div 100) (length events - 1))"
    using percentile_nonneg [of "map r_processing_time events" 95] by simp
  with False show ?thesis
    by (simp add: summary_of_rows_def Let_def try_bind_def statistics_mean_average)
qed

text \<open>
  Claim C9. For a non-empty list of samples and a percentile \<open>p \<ge> 0\<close>, \<open>_percentile\<close>
  returns the element of the ascending sort at index \<open>\<lfloor>N \<times> p / 100\<rfloor>\<close>, lowered to \<open>N - 1\<close>
  when it is larger; the index lies in \<open>[0, N - 1]\<close>. The 95th percentile of the ten
  latencies 0.1, 0.2, ..., 1.0 is 1.0. When sqlite3 works, \<open>generate_weekly_summary\<close>
  returns a summary whose \<open>p95_response_time\<close> is that percentile of the processing times
  of the last seven days (0 when there are none).
\<close>

theorem percentile_nearest_rank:
  "(data \<noteq> [] \<and> 0 \<le> p \<longrightarrow>
      percentile data p =
        Inr (sort data ! min (length data * nat p div 100) (length data - 1))
      \<and> min (length data * nat p div 100) (length data - 1) < length data)
   \<and> percentile [1 / 10, 2 / 10, 3 / 10, 4 / 10, 5 / 10, 6 / 10, 7 / 10, 8 / 10, 9 / 10, 1] 95
       = Inr 1
   \<and> (\<exists>summary. generate_weekly_summary now True s = Some summary
        \<and> p95_response_time summary =
           (let times = map r_processing_time
                  (between_query r_timestamp (now - 7 * 24 * 3600) now (scoring_events (db s)))
            in if times = [] then 0
               else sort times ! min (length times * 95 div 100) (length times - 1)))"
proof (intro conjI impI)
  assume "data \<noteq> [] \<and> 0 \<le> p"
  then show "percentile data p =
        Inr (sort data ! min (length data * nat p div 100) (length data - 1))"
    by (simp add: percentile_nonneg)
next
  assume "data \<noteq> [] \<and> 0 \<le> p"
  then show "min (length data * nat p div 100) (length data - 1) < length data"
    by (cases data) auto
next
  show "percentile [1 / 10, 2 / 10, 3 / 10, 4 / 10, 5 / 10, 6 / 10, 7 / 10, 8 / 10, 9 / 10, 1] 95
       = Inr 1"
    by code_simp
next
  let ?events = "between_query r_timestamp (now - 7 * 24 * 3600) now (scoring_events (db s))"
  let ?alerts = "between_query alert_timestamp (now - 7 * 24 * 3600) now (anomaly_alerts (db s))"
  from summary_of_rows_p95 [of ?events ?alerts]
  obtain summary where "summary_of_rows ?events ?alerts = Inr summary"
    and "p95_response_time summary =
        (if ?events = [] then 0
         else sort (map r_processing_time ?events)
                ! min (length ?events * 95 div 100) (length ?events - 1))"
    by blast
  then show "\<exists>summary. generate_weekly_summary now True s = Some summary
        \<and> p95_response_time summary =
           (let times = map r_processing_time ?events
            in if times = [] then 0
               else sort times ! min (length times * 95 div 100) (length times - 1))"
    by (simp add: generate_weekly_summary_def Let_def)
qed

lemma count_scores_buckets:
  "count_scores xs
     [(''poor (0-579)'', a), (''fair (580-669)'', b), (''good (670-739)'', c),
      (''very_good (740-799)'', d), (''excellent (800-1000)'', e)] =
     [(''poor (0-579)'', a + length (filter (\<lambda>x. x < 580) xs)),
      (''fair (580-669)'', b + length (filter (\<lambda>x. 580 \<le> x \<and> x < 670) xs)),
      (''good (670-739)'', c + length (filter (\<lambda>x. 670 \<le> x \<and> x < 740) xs)),
      (''very_good (740-799)'', d + length (filter (\<lambda>x. 740 \<le> x \<and> x < 800) xs)),
      (''excellent (800-1000)'', e + length (filter (\<lambda>x. 800 \<le> x) xs))]"
  by (induction xs arbitrary: a b c d e) (simp_all add: increment_def)

lemma buckets_partition:
  "length (filter (\<lambda>x. x < 580) xs)
   + length (filter (\<lambda>x. 580 \<le> x \<and> x < 670) xs)
   + length (filter (\<lambda>x. 670 \<le> x \<and> x < 740) xs)
   + length (filter (\<lambda>x. 740 \<le> x \<and> x < 800) xs)
   + length (filter (\<lambda>x. 800 \<le> x) xs) = length (xs :: real list)"
  by (induction xs) auto

text \<open>
  Claim C10. \<open>_calculate_score_distribution\<close> returns the empty dictionary for no scores. For
  a non-empty list it returns the five ranges in order, each with the number of scores
  that are at least its lower bound and less than its upper bound (below 580; 580 to 670;
  670 to 740; 740 to 800; 800 and above), and the five counts add up to the number of
  scores.
\<close>

theorem score_distribution_buckets:
  "calculate_score_distribution [] = []
   \<and> (scores \<noteq> [] \<longrightarrow>
        calculate_score_distribution scores =
          [(''poor (0-579)'', length (filter (\<lambda>x. x < 580) scores)),
           (''fair (580-669)'', length (filter (\<lambda>x. 580 \<le> x \<and> x < 670) scores)),
           (''good (670-739)'', length (filter (\<lambda>x. 670 \<le> x \<and> x < 740) scores)),
           (''very_good (740-799)'', length (filter (\<lambda>x. 740 \<le> x \<and> x < 800) scores)),
           (''excellent (800-1000)'', length (filter (\<lambda>x. 800 \<le> x) scores))]
        \<and> sum_list (map snd (calculate_score_distribution scores)) = length scores)"
  using buckets_partition [of scores]
  by (simp add: calculate_score_distribution_def count_scores_buckets)

theorem score_distribution_buckets_witness:
  "calculate_score_distribution [579, 580, 669, 670, 739, 740, 799, 800, 1000, 300] =
     [(''poor (0-579)'', 2), (''fair (580-669)'', 2), (''good (670-739)'', 2),
      (''very_good (740-799)'', 2), (''excellent (800-1000)'', 2)]
   \<and> sum_list (map snd
        (calculate_score_distribution [579, 580, 669, 670, 739, 740, 799, 800, 1000, 300])) = 10"
proof -
  have ne: "[579, 580, 669, 670, 739, 740, 799, 800, 1000, 300 :: real] \<noteq> []" by simp
  from score_distribution_buckets [of "[579, 580, 669, 670, 739, 740, 799, 800, 1000, 300]"] ne
  show ?thesis by simp
qed


theorem percentile_nearest_rank_witness:
  "percentile [3 / 10, 1 / 10, 2 / 10] 50 = Inr (2 / 10)
   \<and> map_option p95_response_time
        (generate_weekly_summary 1000 True
           ((monitor_with (default_baseline 0) [] [] [])\<lparr>db := latency_history\<rparr>)) = Some 1"
proof -
  let ?s = "(monitor_with (default_baseline 0) [] [] [])\<lparr>db := latency_history\<rparr>"
  let ?d = "[3 / 10, 1 / 10, 2 / 10] :: real list"
  have d: "?d \<noteq> [] \<and> (0::int) \<le> 50" by simp
  have i: "sort ?d ! min (length ?d * nat 50 div 100) (length ?d - 1) = 2 / 10"
    by code_simp
  have t: "map r_processing_time
             (between_query r_timestamp (1000 - 7 * 24 * 3600) 1000 (scoring_events (db ?s))) =
           [1 / 10, 2 / 10, 3 / 10, 4 / 10, 5 / 10, 6 / 10, 7 / 10, 8 / 10, 9 / 10, 1]"
    by code_simp
  have j: "sort [1 / 10, 2 / 10, 3 / 10, 4 / 10, 5 / 10, 6 / 10, 7 / 10, 8 / 10, 9 / 10, 1 :: real]
      ! min (length [1 / 10, 2 / 10, 3 / 10, 4 / 10, 5 / 10, 6 / 10, 7 / 10, 8 / 10, 9 / 10,
                     1 :: real] * 95 div 100)
            (length [1 / 10, 2 / 10, 3 / 10, 4 / 10, 5 / 10, 6 / 10, 7 / 10, 8 / 10, 9 / 10,
                     1 :: real] - 1) = 1"
    by code_simp
  note w = percentile_nearest_rank [of ?d 50 1000 ?s]
  from w d have 1: "percentile ?d 50 = Inr (2 / 10)"
    unfolding i by blast
  from w obtain summary where "generate_weekly_summary 1000 True ?s = Some summary"
    and "p95_response_time summary = 1"
    unfolding t Let_def j by auto
  then have 2: "map_option p95_response_time (generate_weekly_summary 1000 True ?s) = Some 1"
    by simp
  from 1 2 show ?thesis by simp
qed

text \<open>
  Claim C8, as amended. When sqlite3 works, \<open>cleanup_old_data\<close> keeps, in both tables and
  in order, exactly the rows whose timestamp is at least \<open>now - days_to_keep \<times> 24h\<close>, and
  logs how many events and how many alerts it deleted; it returns nothing (Python's
  \<open>None\<close>). When sqlite3 fails the tables are unchanged, the error is logged and nothing is
  raised. With \<open>days_to_keep = 0\<close> the events left are those with \<open>timestamp \<ge> now\<close>, and a
  later cleanup with \<open>days_to_keep = 9999\<close>, at most 9999 days after, deletes none of them.
\<close>

theorem cleanup_deletes_older_records:
  "(let cutoff = now - real_of_int days * 24 * 3600;
        s' = fst (cleanup_old_data days now True s);
        events_deleted =
          length (filter (\<lambda>r. r_timestamp r < cutoff) (scoring_events (db s)));
        alerts_deleted =
          length (filter (\<lambda>a. alert_timestamp a < cutoff) (anomaly_alerts (db s)))
    in scoring_events (db s') =
         filter (\<lambda>r. cutoff \<le> r_timestamp r) (scoring_events (db s))
     \<and> anomaly_alerts (db s') =
         filter (\<lambda>a. cutoff \<le> alert_timestamp a) (anomaly_alerts (db s))
     \<and> length (scoring_events (db s')) + events_deleted = length (scoring_events (db s))
     \<and> length (anomaly_alerts (db s')) + alerts_deleted = length (anomaly_alerts (db s))
     \<and> logged s' = logged s @
         [LogInfo [PyStr ''Cleanup completed: '', PyNum (real events_deleted),
                   PyStr '' events, '', PyNum (real alerts_deleted),
                   PyStr '' alerts deleted'']]
     \<and> snd (cleanup_old_data days now True s) = None)
   \<and> db (fst (cleanup_old_data days now False s)) = db s
   \<and> logged (fst (cleanup_old_data days now False s)) =
       logged s @ [LogError ''Error during cleanup'']
   \<and> snd (cleanup_old_data days now False s) = None
   \<and> scoring_events (db (fst (cleanup_old_data 0 now True s))) =
       filter (\<lambda>r. now \<le> r_timestamp r) (scoring_events (db s))
   \<and> (now \<le> later \<and> later \<le> now + 9999 * 24 * 3600 \<longrightarrow>
        db (fst (cleanup_old_data 9999 later True (fst (cleanup_old_data 0 now True s)))) =
        db (fst (cleanup_old_data 0 now True s)))"
proof -
  have neg: "\<And>c. (\<lambda>r. \<not> r_timestamp r < c) = (\<lambda>r. c \<le> r_timestamp r)"
    "\<And>c. (\<lambda>a. \<not> alert_timestamp a < c) = (\<lambda>a. c \<le> alert_timestamp a)"
    by (auto simp: not_less)
  have split: "\<And>(P :: 'a \<Rightarrow> bool) xs. length (filter (\<lambda>x. \<not> P x) xs) + length (filter P xs) = length xs"
    using sum_length_filter_compl by (metis add.commute)
  have a: "\<And>c xs. length (filter (\<lambda>r. c \<le> r_timestamp r) xs)
      + length (filter (\<lambda>r. r_timestamp r < c) xs) = length xs"
    using split [of "\<lambda>r. r_timestamp r < c" for c] by (simp add: neg)
  have b: "\<And>c xs. length (filter (\<lambda>r. c \<le> alert_timestamp r) xs)
      + length (filter (\<lambda>r. alert_timestamp r < c) xs) = length xs"
    using split [of "\<lambda>r. alert_timestamp r < c" for c] by (simp add: neg)
  have keep: "now \<le> later \<and> later \<le> now + 9999 * 24 * 3600 \<Longrightarrow>
      db (fst (cleanup_old_data 9999 later True (fst (cleanup_old_data 0 now True s)))) =
      db (fst (cleanup_old_data 0 now True s))"
    by (auto simp: cleanup_old_data_def Let_def neg intro!: filter_cong)
  show ?thesis
    using keep by (simp add: cleanup_old_data_def Let_def neg a b)
qed


theorem cleanup_deletes_older_records_witness:
  "scoring_events (db (fst (cleanup_old_data 0 100 True
      ((monitor_with (default_baseline 0) [] [] [])\<lparr>db := retention_store\<rparr>)))) =
     [row_of_event (event_at 150 1 200 None)]
   \<and> anomaly_alerts (db (fst (cleanup_old_data 0 100 True
      ((monitor_with (default_baseline 0) [] [] [])\<lparr>db := retention_store\<rparr>)))) = []
   \<and> logged (fst (cleanup_old_data 0 100 True
      ((monitor_with (default_baseline 0) [] [] [])\<lparr>db := retention_store\<rparr>))) =
     [LogInfo [PyStr ''Cleanup completed: '', PyNum 1, PyStr '' events, '', PyNum 1,
               PyStr '' alerts deleted'']]
   \<and> db (fst (cleanup_old_data 9999 200 True (fst (cleanup_old_data 0 100 True
      ((monitor_with (default_baseline 0) [] [] [])\<lparr>db := retention_store\<rparr>))))) =
     db (fst (cleanup_old_data 0 100 True
      ((monitor_with (default_baseline 0) [] [] [])\<lparr>db := retention_store\<rparr>)))"
proof -
  let ?s = "(monitor_with (default_baseline 0) [] [] [])\<lparr>db := retention_store\<rparr>"
  have f: "filter (\<lambda>r. 100 - real_of_int 0 * 24 * 3600 \<le> r_timestamp r)
             (scoring_events (db ?s)) = [row_of_event (event_at 150 1 200 None)]"
    "filter (\<lambda>a. 100 - real_of_int 0 * 24 * 3600 \<le> alert_timestamp a)
             (anomaly_alerts (db ?s)) = []"
    "length (filter (\<lambda>r. r_timestamp r < 100 - real_of_int 0 * 24 * 3600)
             (scoring_events (db ?s))) = 1"
    "length (filter (\<lambda>a. alert_timestamp a < 100 - real_of_int 0 * 24 * 3600)
             (anomaly_alerts (db ?s))) = 1"
    "logged ?s = []"
    by code_simp+
  have h: "(100::real) \<le> 200 \<and> (200::real) \<le> 100 + 9999 * 24 * 3600" by simp
  note w = cleanup_deletes_older_records [where now = 100 and days = 0 and s = ?s
      and later = 200, unfolded Let_def f]
  from w h show ?thesis by simp
qed

text \<open>
  A cleanup with \<open>days_to_keep = 0\<close> at instant 100 on a store with events of instants 0 and
  150 and an alert of instant 50 deletes one event and one alert; the call evaluates to
  \<open>None\<close>, not to the pair of the two counts.
\<close>

theorem cleanup_return_counterexample:
  "length (scoring_events (db ((monitor_with (default_baseline 0) [] [] [])
      \<lparr>db := retention_store\<rparr>))) = 2
   \<and> length (scoring_events (db (fst (cleanup_old_data 0 100 True
      ((monitor_with (default_baseline 0) [] [] [])\<lparr>db := retention_store\<rparr>))))) = 1
   \<and> snd (cleanup_old_data 0 100 True
      ((monitor_with (default_baseline 0) [] [] [])\<lparr>db := retention_store\<rparr>)) = None
   \<and> snd (cleanup_old_data 0 100 True
      ((monitor_with (default_baseline 0) [] [] [])\<lparr>db := retention_store\<rparr>)) \<noteq> Some (1, 1)"
  by code_simp

end
